theory Spec2Isabelle
  imports Main "HOL-Library.Sublist"
begin

section \<open>Python strings\<close>

text \<open>
  A Python \<^verbatim>\<open>str\<close> is modelled as a \<^typ>\<open>string\<close> whose characters are the code
  points below 256. \<^verbatim>\<open>str.lower()\<close> maps the upper-case letters of that range
  (A to Z, and U+00C0 to U+00DE apart from the multiplication sign U+00D7) to the
  letter 32 code points later and leaves every other character alone.
\<close>

definition lower_char :: "char \<Rightarrow> char" where
  "lower_char c =
     (let n = (of_char c :: nat)
      in if (65 \<le> n \<and> n \<le> 90) \<or> (192 \<le> n \<and> n \<le> 222 \<and> n \<noteq> 215)
         then char_of (n + 32) else c)"

definition lower :: "string \<Rightarrow> string" where
  "lower s = map lower_char s"

text \<open>
  \<^verbatim>\<open>a in b\<close> on two strings: \<open>a\<close> occurs in \<open>b\<close> as a contiguous run. The search
  tries every start position of \<open>b\<close> from the left.
\<close>

fun startswith :: "string \<Rightarrow> string \<Rightarrow> bool" where
  "startswith [] hay = True"
| "startswith (x # xs) [] = False"
| "startswith (x # xs) (y # ys) = (x = y \<and> startswith xs ys)"

fun str_in :: "string \<Rightarrow> string \<Rightarrow> bool" where
  "str_in needle [] = (needle = [])"
| "str_in needle (h # hs) = (startswith needle (h # hs) \<or> str_in needle hs)"

text \<open>Truth value of an optional string or list argument: \<^verbatim>\<open>None\<close> and the empty
  value are both false.\<close>

fun truthy :: "'a list option \<Rightarrow> bool" where
  "truthy None = False"
| "truthy (Some xs) = (xs \<noteq> [])"

section \<open>The catalog\<close>

text \<open>
  The dictionaries of the two mock tables, one record field per key. \<open>c_min_gpa\<close>
  holds the grade point average in tenths (3.8 is 38): every value of the table has one
  decimal digit, and the value is only ever printed.
\<close>

record college =
  c_name :: string
  c_major :: string
  c_rank :: int
  c_location :: string
  c_scholarships :: "string list"
  c_notes :: string
  c_min_gpa :: nat
  c_skills_preferred :: "string list"

record scholarship =
  s_name :: string
  s_college :: string
  s_major :: string
  s_criteria :: string
  s_amount :: string

definition colleges :: "college list" where
  "colleges = [
     \<lparr>c_name = ''Tech University'', c_major = ''Computer Science'', c_rank = 5,
      c_location = ''California, USA'',
      c_scholarships = [''Merit Scholarship'', ''Research Grant''],
      c_notes = ''Strong in AI and ML. High research output.'', c_min_gpa = 38,
      c_skills_preferred = [''coding'', ''algorithms'']\<rparr>,
     \<lparr>c_name = ''Global Business School'', c_major = ''Business'', c_rank = 12,
      c_location = ''New York, USA'',
      c_scholarships = [''Dean'' @ [CHR 0x27] @ ''s Scholarship'', ''Diversity Scholarship''],
      c_notes = ''Excellent MBA program. Strong industry connections.'', c_min_gpa = 35,
      c_skills_preferred = [''leadership'', ''finance'']\<rparr>,
     \<lparr>c_name = ''Arts Institute'', c_major = ''Fine Arts'', c_rank = 8,
      c_location = ''London, UK'',
      c_scholarships = [''Creative Arts Award''],
      c_notes = ''Renowned for painting and sculpture.'', c_min_gpa = 30,
      c_skills_preferred = [''drawing'', ''painting'']\<rparr>,
     \<lparr>c_name = ''National Engineering College'', c_major = ''Mechanical Engineering'',
      c_rank = 25, c_location = ''Hyderabad, India'',
      c_scholarships = [''State Aid'', ''Innovation Fund''],
      c_notes = ''Hands-on projects, good industry ties in India.'', c_min_gpa = 32,
      c_skills_preferred = [''robotics'', ''CAD'']\<rparr>,
     \<lparr>c_name = ''Green Earth University'', c_major = ''Environmental Science'',
      c_rank = 30, c_location = ''Oregon, USA'',
      c_scholarships = [''Sustainability Grant''],
      c_notes = ''Focus on renewable energy and conservation.'', c_min_gpa = 33,
      c_skills_preferred = [''research'', ''environmental analysis'']\<rparr>,
     \<lparr>c_name = ''City Medical School'', c_major = ''Medicine'', c_rank = 3,
      c_location = ''Boston, USA'',
      c_scholarships = [''Medical Research Fellowship''],
      c_notes = ''Highly competitive, excellent hospital affiliations.'', c_min_gpa = 39,
      c_skills_preferred = [''biology'', ''chemistry'', ''research'']\<rparr>,
     \<lparr>c_name = ''Elite Tech Institute'', c_major = ''Computer Science'', c_rank = 2,
      c_location = ''California, USA'',
      c_scholarships = [''Presidential Scholarship'', ''Engineering Grant''],
      c_notes = ''World-leading in AI and data science. Very competitive.'', c_min_gpa = 40,
      c_skills_preferred = [''coding'', ''data structures'', ''machine learning'']\<rparr>,
     \<lparr>c_name = ''Global Business School'', c_major = ''Economics'', c_rank = 10,
      c_location = ''New York, USA'',
      c_scholarships = [''Fellowship for Global Studies''],
      c_notes = ''Strong quantitative economics program.'', c_min_gpa = 37,
      c_skills_preferred = [''mathematics'', ''analytical thinking'']\<rparr>,
     \<lparr>c_name = ''Indian Institute of Technology Bombay'', c_major = ''Computer Science'',
      c_rank = 1, c_location = ''Mumbai, India'',
      c_scholarships = [''Institute Scholarship'', ''Private Grants''],
      c_notes = ''Premier engineering institute in India.'', c_min_gpa = 39,
      c_skills_preferred = [''coding'', ''algorithms'', ''problem solving'']\<rparr>,
     \<lparr>c_name = ''University of Delhi'', c_major = ''History'', c_rank = 50,
      c_location = ''Delhi, India'',
      c_scholarships = [''University Grants''],
      c_notes = ''Strong humanities programs.'', c_min_gpa = 30,
      c_skills_preferred = [''research'', ''writing'', ''critical thinking'']\<rparr>]"

definition scholarships :: "scholarship list" where
  "scholarships = [
     \<lparr>s_name = ''University Merit Scholarship'', s_college = ''Tech University'',
      s_major = ''Any'', s_criteria = ''GPA 3.8+, leadership'',
      s_amount = ''$10,000/year''\<rparr>,
     \<lparr>s_name = ''AI Research Fellowship'', s_college = ''Tech University'',
      s_major = ''Computer Science'',
      s_criteria = ''Research experience in AI, strong coding skills'',
      s_amount = ''$5,000 one-time''\<rparr>,
     \<lparr>s_name = ''Global Leader Award'', s_college = ''Global Business School'',
      s_major = ''Business'',
      s_criteria = ''Exceptional leadership, international experience'',
      s_amount = ''$15,000/year''\<rparr>,
     \<lparr>s_name = ''STEM Innovator Grant'', s_college = ''National Engineering College'',
      s_major = ''Engineering'',
      s_criteria = ''Demonstrated innovation in robotics or sustainability projects'',
      s_amount = ''$7,500 one-time''\<rparr>,
     \<lparr>s_name = ''Environmental Champion Grant'', s_college = ''Green Earth University'',
      s_major = ''Environmental Science'',
      s_criteria = ''Community involvement in environmental causes'',
      s_amount = ''$8,000/year''\<rparr>,
     \<lparr>s_name = ''General Excellence Scholarship'', s_college = ''Any'',
      s_major = ''Any'', s_criteria = ''GPA 3.5+, strong essays'',
      s_amount = ''Varies''\<rparr>,
     \<lparr>s_name = ''Dean'' @ [CHR 0x27] @ ''s Excellence Award'',
      s_college = ''Elite Tech Institute'', s_major = ''Computer Science'',
      s_criteria = ''Top academic performance, competitive'',
      s_amount = ''$20,000/year''\<rparr>,
     \<lparr>s_name = ''Indian STEM Scholarship'',
      s_college = ''Indian Institute of Technology Bombay'', s_major = ''Any STEM'',
      s_criteria = ''High scores in JEE Advanced, research aptitude'',
      s_amount = ''Full Tuition''\<rparr>,
     \<lparr>s_name = ''Humanities Research Grant'', s_college = ''University of Delhi'',
      s_major = ''History'',
      s_criteria = ''Excellent academic record in humanities, research proposal'',
      s_amount = ''Rs. 50,000 one-time''\<rparr>]"

section \<open>Encoding results: json.dumps\<close>

text \<open>
  \<^verbatim>\<open>json.dumps\<close> with its default settings, on the values the two tables hold: a
  string is quoted, with the quote, the backslash and every character outside the
  printable ASCII range escaped; an integer is printed in decimal; a list is
  \<^verbatim>\<open>[a, b]\<close> and a dictionary \<^verbatim>\<open>{"k": v, "l": w}\<close>, keys in insertion order.
\<close>

definition hex_digit :: "nat \<Rightarrow> char" where
  "hex_digit n = ''0123456789abcdef'' ! (n mod 16)"

definition json_escape_char :: "char \<Rightarrow> string" where
  "json_escape_char c =
     (let n = (of_char c :: nat)
      in if n = 0x22 then [CHR 0x5C, CHR 0x22]
         else if n = 0x5C then [CHR 0x5C, CHR 0x5C]
         else if n = 0x0A then [CHR 0x5C, CHR ''n'']
         else if n = 0x0D then [CHR 0x5C, CHR ''r'']
         else if n = 0x09 then [CHR 0x5C, CHR ''t'']
         else if n = 0x0C then [CHR 0x5C, CHR ''f'']
         else if n = 0x08 then [CHR 0x5C, CHR ''b'']
         else if n < 0x20 \<or> 0x7E < n
           then [CHR 0x5C, CHR ''u'', CHR ''0'', CHR ''0'', hex_digit (n div 16), hex_digit n]
         else [c])"

definition json_string :: "string \<Rightarrow> string" where
  "json_string s = [CHR 0x22] @ concat (map json_escape_char s) @ [CHR 0x22]"

fun str_nat :: "nat \<Rightarrow> string" where
  "str_nat n =
     (if n < 10 then [''0123456789'' ! n]
      else str_nat (n div 10) @ [''0123456789'' ! (n mod 10)])"

declare str_nat.simps [simp del]

definition str_int :: "int \<Rightarrow> string" where
  "str_int i = (if i < 0 then CHR ''-'' # str_nat (nat (- i)) else str_nat (nat i))"

definition str_tenths :: "nat \<Rightarrow> string" where
  "str_tenths n = str_nat (n div 10) @ ''.'' @ str_nat (n mod 10)"

fun join :: "string \<Rightarrow> string list \<Rightarrow> string" where
  "join sep [] = []"
| "join sep [x] = x"
| "join sep (x # y # ys) = x @ sep @ join sep (y # ys)"

definition json_list :: "string list \<Rightarrow> string" where
  "json_list items = ''['' @ join '', '' items @ '']''"

definition json_object :: "(string \<times> string) list \<Rightarrow> string" where
  "json_object kvs = ''{'' @ join '', '' (map (\<lambda>(k, v). json_string k @ '': '' @ v) kvs) @ ''}''"

definition json_college :: "college \<Rightarrow> string" where
  "json_college c = json_object [
     (''name'', json_string (c_name c)),
     (''major'', json_string (c_major c)),
     (''rank'', str_int (c_rank c)),
     (''location'', json_string (c_location c)),
     (''scholarships'', json_list (map json_string (c_scholarships c))),
     (''notes'', json_string (c_notes c)),
     (''min_gpa'', str_tenths (c_min_gpa c)),
     (''skills_preferred'', json_list (map json_string (c_skills_preferred c)))]"

definition json_scholarship :: "scholarship \<Rightarrow> string" where
  "json_scholarship s = json_object [
     (''name'', json_string (s_name s)),
     (''college'', json_string (s_college s)),
     (''major'', json_string (s_major s)),
     (''criteria'', json_string (s_criteria s)),
     (''amount'', json_string (s_amount s))]"

definition dumps_colleges :: "college list \<Rightarrow> string" where
  "dumps_colleges cs = json_list (map json_college cs)"

definition dumps_scholarships :: "scholarship list \<Rightarrow> string" where
  "dumps_scholarships ss = json_list (map json_scholarship ss)"

section \<open>get_college_data\<close>

text \<open>
  The inner loop over \<^verbatim>\<open>academic_skills\<close>: the flag becomes true at the first skill
  whose lower-case form is in the lower-cased \<^verbatim>\<open>skills_preferred\<close> list, and the
  loop stops there.
\<close>

fun skill_match :: "string list \<Rightarrow> string list \<Rightarrow> bool" where
  "skill_match [] preferred = False"
| "skill_match (skill # rest) preferred =
     (if lower skill \<in> set (map lower preferred) then True
      else skill_match rest preferred)"

text \<open>
  One pass of the loop body: false where the body reaches a \<^verbatim>\<open>continue\<close>, true
  where it reaches \<^verbatim>\<open>results.append(college)\<close>. The checks are in the order of the
  source.
\<close>

definition college_kept ::
  "string \<Rightarrow> int option \<Rightarrow> int option \<Rightarrow> string option \<Rightarrow> string list option
     \<Rightarrow> college \<Rightarrow> bool" where
  "college_kept major min_rank max_rank location_preference academic_skills college =
     (if lower (c_major college) \<noteq> lower major then False
      else if (case min_rank of None \<Rightarrow> False | Some m \<Rightarrow> c_rank college < m) then False
      else if (case max_rank of None \<Rightarrow> False | Some m \<Rightarrow> c_rank college > m) then False
      else if (case location_preference of None \<Rightarrow> False
               | Some l \<Rightarrow> l \<noteq> [] \<and> \<not> str_in (lower l) (lower (c_location college)))
        then False
      else if truthy academic_skills
        then (if \<not> skill_match (the academic_skills) (c_skills_preferred college)
              then False else True)
      else True)"

fun college_scan ::
  "string \<Rightarrow> int option \<Rightarrow> int option \<Rightarrow> string option \<Rightarrow> string list option
     \<Rightarrow> college list \<Rightarrow> college list" where
  "college_scan major min_rank max_rank location_preference academic_skills [] = []"
| "college_scan major min_rank max_rank location_preference academic_skills (college # rest) =
     (if college_kept major min_rank max_rank location_preference academic_skills college
      then college # college_scan major min_rank max_rank location_preference
                       academic_skills rest
      else college_scan major min_rank max_rank location_preference academic_skills rest)"

definition no_colleges_message :: string where
  "no_colleges_message =
     ''No colleges found matching the criteria in the simulated database. '' @
     ''Please try broadening your search or modifying criteria.''"

text \<open>
  The part of the result that is encoded: the kept records, sorted by rank (Python's sort
  is stable, as \<^const>\<open>sort_key\<close> is), cut to the first five.
\<close>

definition college_top ::
  "college list \<Rightarrow> string \<Rightarrow> int option \<Rightarrow> int option \<Rightarrow> string option
     \<Rightarrow> string list option \<Rightarrow> college list" where
  "college_top table major min_rank max_rank location_preference academic_skills =
     take 5 (sort_key c_rank
       (college_scan major min_rank max_rank location_preference academic_skills table))"

text \<open>
  The function over any table, and then over the table of the source. The argument
  \<^verbatim>\<open>extra_curriculars\<close> is accepted and not used. The debug notification of the first
  line is not part of the result and is left out.
\<close>

definition get_college_data_on ::
  "college list \<Rightarrow> string \<Rightarrow> int option \<Rightarrow> int option \<Rightarrow> string option
     \<Rightarrow> string list option \<Rightarrow> string list option \<Rightarrow> string" where
  "get_college_data_on table major min_rank max_rank location_preference academic_skills
       extra_curriculars =
     (let results = college_scan major min_rank max_rank location_preference
                      academic_skills table
      in if results = [] then no_colleges_message
         else dumps_colleges (take 5 (sort_key c_rank results)))"

definition get_college_data ::
  "string \<Rightarrow> int option \<Rightarrow> int option \<Rightarrow> string option
     \<Rightarrow> string list option \<Rightarrow> string list option \<Rightarrow> string" where
  "get_college_data = get_college_data_on colleges"

section \<open>search_scholarships\<close>

fun skill_found :: "string list \<Rightarrow> string \<Rightarrow> bool" where
  "skill_found [] criteria = False"
| "skill_found (s # rest) criteria =
     (if str_in (lower s) (lower criteria) then True else skill_found rest criteria)"

text \<open>
  The loop body: \<^verbatim>\<open>match\<close> starts true and each of the four tests may set it to
  false; none sets it back.
\<close>

definition scholarship_match ::
  "string option \<Rightarrow> string option \<Rightarrow> string option \<Rightarrow> string list option
     \<Rightarrow> scholarship \<Rightarrow> bool" where
  "scholarship_match college_name major academic_profile skills scholarship =
     (let match = True;
          match = (if truthy college_name \<and> lower (the college_name) \<noteq> ''any''
                      \<and> \<not> str_in (lower (the college_name)) (lower (s_college scholarship))
                   then False else match);
          match = (if truthy major \<and> lower (the major) \<noteq> ''any''
                      \<and> \<not> str_in (lower (the major)) (lower (s_major scholarship))
                   then False else match);
          match = (if truthy academic_profile
                      \<and> \<not> str_in (lower (the academic_profile))
                            (lower (s_criteria scholarship))
                   then False else match);
          match = (if truthy skills
                   then (if \<not> skill_found (the skills) (s_criteria scholarship)
                         then False else match)
                   else match)
      in match)"

fun scholarship_scan ::
  "string option \<Rightarrow> string option \<Rightarrow> string option \<Rightarrow> string list option
     \<Rightarrow> scholarship list \<Rightarrow> scholarship list" where
  "scholarship_scan college_name major academic_profile skills [] = []"
| "scholarship_scan college_name major academic_profile skills (scholarship # rest) =
     (if scholarship_match college_name major academic_profile skills scholarship
      then scholarship # scholarship_scan college_name major academic_profile skills rest
      else scholarship_scan college_name major academic_profile skills rest)"

definition no_scholarships_message :: string where
  "no_scholarships_message =
     ''No scholarships found matching your criteria in the simulated database. '' @
     ''Try broadening your search.''"

definition scholarship_top ::
  "scholarship list \<Rightarrow> string option \<Rightarrow> string option \<Rightarrow> string option
     \<Rightarrow> string list option \<Rightarrow> scholarship list" where
  "scholarship_top table college_name major academic_profile skills =
     take 3 (scholarship_scan college_name major academic_profile skills table)"

definition search_scholarships_on ::
  "scholarship list \<Rightarrow> string option \<Rightarrow> string option \<Rightarrow> string option
     \<Rightarrow> string list option \<Rightarrow> string" where
  "search_scholarships_on table college_name major academic_profile skills =
     (let results = scholarship_scan college_name major academic_profile skills table
      in if results = [] then no_scholarships_message
         else dumps_scholarships (take 3 results))"

definition search_scholarships ::
  "string option \<Rightarrow> string option \<Rightarrow> string option \<Rightarrow> string list option \<Rightarrow> string" where
  "search_scholarships = search_scholarships_on scholarships"

section \<open>validate_input\<close>

definition validate_input :: "string list \<Rightarrow> string \<Rightarrow> string" where
  "validate_input required_info message_to_user = message_to_user"

section \<open>The tools on argument values of any type\<close>

text \<open>
  The argument bag of a tool call is a dictionary from parameter names to values; it is
  modelled as the list of its items, read with \<^const>\<open>map_of\<close> (the keys of a
  dictionary are distinct). The values are the ones the tool declarations name:
  strings, integers and lists of strings.
\<close>

datatype arg = AStr string | AInt int | AList "string list"

type_synonym kwargs = "(string \<times> arg) list"

text \<open>
  \<open>TypeError\<close> and \<open>AttributeError\<close> are the two exceptions of Python that the
  program can meet on such values; \<open>GatewayError\<close> is any exception of the chat
  service.
\<close>

datatype error = TypeError | AttributeError | GatewayError string

text \<open>
  Python does not check the annotations of a function, so a tool called through
  \<open>call_tool\<close> may receive a value of any of the three types in any parameter.
  The functions of the two sections above describe the calls whose arguments have
  the annotated types; the definitions of this section follow the same source lines on
  every value. A parameter that is not given has the default \<^verbatim>\<open>None\<close>.

  Truth value of an argument: \<^verbatim>\<open>None\<close>, the empty string, zero and the empty
  list are false.
\<close>

fun truthy_arg :: "arg option \<Rightarrow> bool" where
  "truthy_arg None = False"
| "truthy_arg (Some (AStr s)) = (s \<noteq> [])"
| "truthy_arg (Some (AInt i)) = (i \<noteq> 0)"
| "truthy_arg (Some (AList xs)) = (xs \<noteq> [])"

text \<open>\<^verbatim>\<open>v.lower()\<close>: only a string has the method.\<close>

fun lower_arg :: "arg \<Rightarrow> error + string" where
  "lower_arg (AStr s) = Inr (lower s)"
| "lower_arg (AInt i) = Inl AttributeError"
| "lower_arg (AList xs) = Inl AttributeError"

text \<open>\<^verbatim>\<open>for x in v\<close>: a list gives its elements, a string its characters as strings
  of length one, and an integer cannot be iterated.\<close>

fun iter_arg :: "arg \<Rightarrow> error + string list" where
  "iter_arg (AList xs) = Inr xs"
| "iter_arg (AStr s) = Inr (map (\<lambda>c. [c]) s)"
| "iter_arg (AInt i) = Inl TypeError"

text \<open>\<^verbatim>\<open>rank < v\<close> and \<^verbatim>\<open>rank > v\<close> for the integer rank of a record: an integer
  is compared, a string or a list is not ordered against an integer.\<close>

fun rank_lt :: "int \<Rightarrow> arg \<Rightarrow> error + bool" where
  "rank_lt r (AInt m) = Inr (r < m)"
| "rank_lt r (AStr s) = Inl TypeError"
| "rank_lt r (AList xs) = Inl TypeError"

fun rank_gt :: "int \<Rightarrow> arg \<Rightarrow> error + bool" where
  "rank_gt r (AInt m) = Inr (r > m)"
| "rank_gt r (AStr s) = Inl TypeError"
| "rank_gt r (AList xs) = Inl TypeError"

subsection \<open>get_college_data\<close>

text \<open>
  The five tests of the loop body, each the condition of one \<^verbatim>\<open>if\<close> of lines 105
  to 120: its value, or the exception that evaluating it raises.
\<close>

definition major_differs :: "arg \<Rightarrow> college \<Rightarrow> error + bool" where
  "major_differs major college =
     (case lower_arg major of
        Inl e \<Rightarrow> Inl e
      | Inr m \<Rightarrow> Inr (lower (c_major college) \<noteq> m))"

definition below_min :: "arg option \<Rightarrow> college \<Rightarrow> error + bool" where
  "below_min min_rank college =
     (case min_rank of None \<Rightarrow> Inr False | Some v \<Rightarrow> rank_lt (c_rank college) v)"

definition above_max :: "arg option \<Rightarrow> college \<Rightarrow> error + bool" where
  "above_max max_rank college =
     (case max_rank of None \<Rightarrow> Inr False | Some v \<Rightarrow> rank_gt (c_rank college) v)"

definition location_differs :: "arg option \<Rightarrow> college \<Rightarrow> error + bool" where
  "location_differs location_preference college =
     (case location_preference of
        None \<Rightarrow> Inr False
      | Some v \<Rightarrow>
          if \<not> truthy_arg (Some v) then Inr False
          else (case lower_arg v of
                  Inl e \<Rightarrow> Inl e
                | Inr l \<Rightarrow> Inr (\<not> str_in l (lower (c_location college)))))"

definition skills_differ :: "arg option \<Rightarrow> college \<Rightarrow> error + bool" where
  "skills_differ academic_skills college =
     (case academic_skills of
        None \<Rightarrow> Inr False
      | Some v \<Rightarrow>
          if \<not> truthy_arg (Some v) then Inr False
          else (case iter_arg v of
                  Inl e \<Rightarrow> Inl e
                | Inr ks \<Rightarrow> Inr (\<not> skill_match ks (c_skills_preferred college))))"

text \<open>
  The tests run in order and the first one that holds ends the pass with
  \<^verbatim>\<open>continue\<close>, so a later test is not evaluated and cannot raise.
\<close>

fun first_true :: "(error + bool) list \<Rightarrow> error + bool" where
  "first_true [] = Inr False"
| "first_true (Inl e # tests) = Inl e"
| "first_true (Inr b # tests) = (if b then Inr True else first_true tests)"

definition college_skipped ::
  "arg \<Rightarrow> arg option \<Rightarrow> arg option \<Rightarrow> arg option \<Rightarrow> arg option \<Rightarrow> college
     \<Rightarrow> error + bool" where
  "college_skipped major min_rank max_rank location_preference academic_skills college =
     first_true [major_differs major college, below_min min_rank college,
                 above_max max_rank college,
                 location_differs location_preference college,
                 skills_differ academic_skills college]"

fun college_scan_args ::
  "arg \<Rightarrow> arg option \<Rightarrow> arg option \<Rightarrow> arg option \<Rightarrow> arg option \<Rightarrow> college list
     \<Rightarrow> error + college list" where
  "college_scan_args major min_rank max_rank location_preference academic_skills [] = Inr []"
| "college_scan_args major min_rank max_rank location_preference academic_skills
       (college # rest) =
     (case college_skipped major min_rank max_rank location_preference academic_skills
             college of
        Inl e \<Rightarrow> Inl e
      | Inr skip \<Rightarrow>
          (case college_scan_args major min_rank max_rank location_preference
                  academic_skills rest of
             Inl e \<Rightarrow> Inl e
           | Inr results \<Rightarrow> Inr (if skip then results else college # results)))"

definition get_college_data_args ::
  "arg \<Rightarrow> arg option \<Rightarrow> arg option \<Rightarrow> arg option \<Rightarrow> arg option \<Rightarrow> arg option
     \<Rightarrow> error + string" where
  "get_college_data_args major min_rank max_rank location_preference academic_skills
       extra_curriculars =
     (case college_scan_args major min_rank max_rank location_preference academic_skills
             colleges of
        Inl e \<Rightarrow> Inl e
      | Inr results \<Rightarrow>
          Inr (if results = [] then no_colleges_message
               else dumps_colleges (take 5 (sort_key c_rank results))))"

subsection \<open>search_scholarships\<close>

text \<open>
  The conditions of the four \<^verbatim>\<open>if\<close> of lines 149 to 163. Each sets
  \<^verbatim>\<open>match\<close> to false where it holds, and all four are evaluated for every record.
\<close>

definition name_excludes :: "arg option \<Rightarrow> string \<Rightarrow> error + bool" where
  "name_excludes wanted field =
     (case wanted of
        None \<Rightarrow> Inr False
      | Some v \<Rightarrow>
          if \<not> truthy_arg (Some v) then Inr False
          else (case lower_arg v of
                  Inl e \<Rightarrow> Inl e
                | Inr l \<Rightarrow> Inr (l \<noteq> ''any'' \<and> \<not> str_in l (lower field))))"

definition profile_excludes :: "arg option \<Rightarrow> string \<Rightarrow> error + bool" where
  "profile_excludes academic_profile criteria =
     (case academic_profile of
        None \<Rightarrow> Inr False
      | Some v \<Rightarrow>
          if \<not> truthy_arg (Some v) then Inr False
          else (case lower_arg v of
                  Inl e \<Rightarrow> Inl e
                | Inr l \<Rightarrow> Inr (\<not> str_in l (lower criteria))))"

definition skills_exclude :: "arg option \<Rightarrow> string \<Rightarrow> error + bool" where
  "skills_exclude skills criteria =
     (case skills of
        None \<Rightarrow> Inr False
      | Some v \<Rightarrow>
          if \<not> truthy_arg (Some v) then Inr False
          else (case iter_arg v of
                  Inl e \<Rightarrow> Inl e
                | Inr ks \<Rightarrow> Inr (\<not> skill_found ks criteria)))"

text \<open>All tests are evaluated in order; the first exception ends the call, and
  \<^verbatim>\<open>match\<close> stays true when none of them holds.\<close>

fun none_true :: "(error + bool) list \<Rightarrow> error + bool" where
  "none_true [] = Inr True"
| "none_true (Inl e # tests) = Inl e"
| "none_true (Inr b # tests) =
     (case none_true tests of Inl e \<Rightarrow> Inl e | Inr r \<Rightarrow> Inr (\<not> b \<and> r))"

definition scholarship_match_args ::
  "arg option \<Rightarrow> arg option \<Rightarrow> arg option \<Rightarrow> arg option \<Rightarrow> scholarship
     \<Rightarrow> error + bool" where
  "scholarship_match_args college_name major academic_profile skills scholarship =
     none_true [name_excludes college_name (s_college scholarship),
                name_excludes major (s_major scholarship),
                profile_excludes academic_profile (s_criteria scholarship),
                skills_exclude skills (s_criteria scholarship)]"

fun scholarship_scan_args ::
  "arg option \<Rightarrow> arg option \<Rightarrow> arg option \<Rightarrow> arg option \<Rightarrow> scholarship list
     \<Rightarrow> error + scholarship list" where
  "scholarship_scan_args college_name major academic_profile skills [] = Inr []"
| "scholarship_scan_args college_name major academic_profile skills (scholarship # rest) =
     (case scholarship_match_args college_name major academic_profile skills scholarship of
        Inl e \<Rightarrow> Inl e
      | Inr match \<Rightarrow>
          (case scholarship_scan_args college_name major academic_profile skills rest of
             Inl e \<Rightarrow> Inl e
           | Inr results \<Rightarrow> Inr (if match then scholarship # results else results)))"

definition search_scholarships_args ::
  "arg option \<Rightarrow> arg option \<Rightarrow> arg option \<Rightarrow> arg option \<Rightarrow> error + string" where
  "search_scholarships_args college_name major academic_profile skills =
     (case scholarship_scan_args college_name major academic_profile skills scholarships of
        Inl e \<Rightarrow> Inl e
      | Inr results \<Rightarrow>
          Inr (if results = [] then no_scholarships_message
               else dumps_scholarships (take 3 results)))"

subsection \<open>validate_input\<close>

definition validate_input_args :: "arg \<Rightarrow> arg \<Rightarrow> arg" where
  "validate_input_args required_info message_to_user = message_to_user"

section \<open>call_tool\<close>

text \<open>
  The parameters of the three functions, each with whether it has no default. A call
  with a keyword that the function does not have, or without a parameter that has no
  default, raises \<open>TypeError\<close> before the body of the function runs.
\<close>

definition get_college_data_params :: "(string \<times> bool) list" where
  "get_college_data_params =
     [(''major'', True), (''min_rank'', False), (''max_rank'', False),
      (''location_preference'', False), (''academic_skills'', False),
      (''extra_curriculars'', False)]"

definition search_scholarships_params :: "(string \<times> bool) list" where
  "search_scholarships_params =
     [(''college_name'', False), (''major'', False), (''academic_profile'', False),
      (''skills'', False)]"

definition validate_input_params :: "(string \<times> bool) list" where
  "validate_input_params = [(''required_info'', True), (''message_to_user'', True)]"

definition bind_kwargs :: "(string \<times> bool) list \<Rightarrow> kwargs \<Rightarrow> error option" where
  "bind_kwargs params kw =
     (if \<exists>k \<in> set (map fst kw). k \<notin> set (map fst params) then Some TypeError
      else if \<exists>(p, required) \<in> set params. required \<and> map_of kw p = None
        then Some TypeError
      else None)"

text \<open>
  \<^verbatim>\<open>call_tool(tool_name, **kwargs)\<close>, called with the tool name and the items of the
  argument bag as keywords. An argument bag with a key \<^verbatim>\<open>tool_name\<close> gives the
  parameter \<^verbatim>\<open>tool_name\<close> two values, and the call raises \<open>TypeError\<close> before
  the body runs. The result of a tool is a string, except that \<open>validate_input\<close>
  returns whatever value its second argument is.
\<close>

definition call_tool :: "string \<Rightarrow> kwargs \<Rightarrow> error + arg" where
  "call_tool tool_name kw =
     (if ''tool_name'' \<in> set (map fst kw) then Inl TypeError
      else if tool_name = ''get_college_data'' then
        (case bind_kwargs get_college_data_params kw of
           Some e \<Rightarrow> Inl e
         | None \<Rightarrow>
             (case map_of kw ''major'' of
                None \<Rightarrow> Inl TypeError
              | Some major \<Rightarrow>
                  (case get_college_data_args major
                          (map_of kw ''min_rank'') (map_of kw ''max_rank'')
                          (map_of kw ''location_preference'')
                          (map_of kw ''academic_skills'')
                          (map_of kw ''extra_curriculars'') of
                     Inl e \<Rightarrow> Inl e
                   | Inr result \<Rightarrow> Inr (AStr result))))
      else if tool_name = ''search_scholarships'' then
        (case bind_kwargs search_scholarships_params kw of
           Some e \<Rightarrow> Inl e
         | None \<Rightarrow>
             (case search_scholarships_args
                     (map_of kw ''college_name'') (map_of kw ''major'')
                     (map_of kw ''academic_profile'') (map_of kw ''skills'') of
                Inl e \<Rightarrow> Inl e
              | Inr result \<Rightarrow> Inr (AStr result)))
      else if tool_name = ''validate_input'' then
        (case bind_kwargs validate_input_params kw of
           Some e \<Rightarrow> Inl e
         | None \<Rightarrow>
             (case (map_of kw ''required_info'', map_of kw ''message_to_user'') of
                (Some required_info, Some message_to_user) \<Rightarrow>
                  Inr (validate_input_args required_info message_to_user)
              | other \<Rightarrow> Inl TypeError))
      else Inr (AStr (''Error: Tool '' @ [CHR 0x27] @ tool_name @ [CHR 0x27]
                        @ '' not found.'')))"

section \<open>One user turn\<close>

text \<open>
  The chat service is outside the program. A response is what the code reads of it: its
  parts, and the outcome of the \<^verbatim>\<open>text\<close> accessor. A part is a text or carries a
  function call, which has a name and arguments; the arguments may be unset, and
  reading them then gives \<^verbatim>\<open>None\<close>. For one turn the service is given by the
  outcome of the first \<^verbatim>\<open>send_message\<close> and by the outcome of the second one
  together with the read of the final text that follows it.
\<close>

datatype part = Text string | FunctionCall string "kwargs option"

record response =
  r_parts :: "part list"
  r_text :: "error + string"

record gateway =
  first_reply :: "error + response"
  followup_reply :: "error + string"

datatype content = UserText string | FunctionResponse string arg

datatype event = SendMessage content | CallTool string kwargs

datatype role = User | Model

text \<open>A message of the history holds a text, or the apology that the handler formats
  around the text of an exception.\<close>

datatype body = Plain string | Apology error

text \<open>
  The test of line 235 on the first response: it has a part, and the function call of
  its first part is true. The function call of a text part is empty, and an empty
  function call (no name, arguments unset) is false.
\<close>

fun function_call_true :: "part \<Rightarrow> bool" where
  "function_call_true (Text t) = False"
| "function_call_true (FunctionCall n a) = (n \<noteq> [] \<or> a \<noteq> None)"

fun requests_tool :: "response \<Rightarrow> bool" where
  "requests_tool r = (case r_parts r of [] \<Rightarrow> False | p # rest \<Rightarrow> function_call_true p)"

text \<open>
  The block under \<^verbatim>\<open>if user_query:\<close>. It returns the new history and, in order, the
  messages sent to the chat service and the entries into \<open>call_tool\<close>. Every
  exception inside the \<^verbatim>\<open>try\<close> ends the turn in the handler, which appends the
  apology: an exception of the first send, of \<^verbatim>\<open>function_call.args.items()\<close> on
  unset arguments (line 238), of the call of \<open>call_tool\<close>, of the second send or of
  the read of the final text. A call of \<open>call_tool\<close> that Python refuses for a key
  \<^verbatim>\<open>tool_name\<close> does not enter the function.
\<close>

definition handle_user_query ::
  "gateway \<Rightarrow> string \<Rightarrow> (role \<times> body) list \<Rightarrow> (role \<times> body) list \<times> event list" where
  "handle_user_query g user_query chat_history =
     (let h1 = chat_history @ [(User, Plain user_query)];
          t1 = [SendMessage (UserText user_query)]
      in case first_reply g of
           Inl e \<Rightarrow> (h1 @ [(Model, Apology e)], t1)
         | Inr response \<Rightarrow>
             (let direct = (case r_text response of
                              Inl e \<Rightarrow> (h1 @ [(Model, Apology e)], t1)
                            | Inr t \<Rightarrow> (h1 @ [(Model, Plain t)], t1))
              in case r_parts response of
                   FunctionCall tool_name args # rest \<Rightarrow>
                     if \<not> function_call_true (FunctionCall tool_name args) then direct
                     else
                       (case args of
                          None \<Rightarrow> (h1 @ [(Model, Apology AttributeError)], t1)
                        | Some tool_args \<Rightarrow>
                            (let t2 = (if ''tool_name'' \<in> set (map fst tool_args) then t1
                                       else t1 @ [CallTool tool_name tool_args])
                             in case call_tool tool_name tool_args of
                                  Inl e \<Rightarrow> (h1 @ [(Model, Apology e)], t2)
                                | Inr tool_output \<Rightarrow>
                                    (let t3 = t2 @ [SendMessage (FunctionResponse tool_name
                                                                   tool_output)]
                                     in case followup_reply g of
                                          Inl e \<Rightarrow> (h1 @ [(Model, Apology e)], t3)
                                        | Inr final_response \<Rightarrow>
                                            (h1 @ [(Model, Plain final_response)], t3))))
                 | other \<Rightarrow> direct))"

fun is_send :: "event \<Rightarrow> bool" where
  "is_send (SendMessage c) = True"
| "is_send (CallTool n kw) = False"

definition sends :: "event list \<Rightarrow> nat" where
  "sends tr = length (filter is_send tr)"

definition calls :: "event list \<Rightarrow> nat" where
  "calls tr = length (filter (\<lambda>e. \<not> is_send e) tr)"

section \<open>The filters as the specification words them\<close>

definition ci_equal :: "string \<Rightarrow> string \<Rightarrow> bool" where
  "ci_equal a b = (lower a = lower b)"

definition ci_substring :: "string \<Rightarrow> string \<Rightarrow> bool" where
  "ci_substring a b = sublist (lower a) (lower b)"

text \<open>
  A college record passes: its major equals the queried one without regard to case; its
  rank is within each bound that is given; a given location preference occurs in its
  location without regard to case; and, where skills are given and not empty, one of
  them equals one of the preferred skills without regard to case.
\<close>

definition college_passes ::
  "string \<Rightarrow> int option \<Rightarrow> int option \<Rightarrow> string option \<Rightarrow> string list option
     \<Rightarrow> college \<Rightarrow> bool" where
  "college_passes major min_rank max_rank location_preference academic_skills record =
     (ci_equal (c_major record) major
      \<and> (case min_rank of None \<Rightarrow> True | Some m \<Rightarrow> c_rank record \<ge> m)
      \<and> (case max_rank of None \<Rightarrow> True | Some m \<Rightarrow> c_rank record \<le> m)
      \<and> (case location_preference of None \<Rightarrow> True
          | Some l \<Rightarrow> ci_substring l (c_location record))
      \<and> (case academic_skills of None \<Rightarrow> True
          | Some ks \<Rightarrow> ks = [] \<or>
              (\<exists>k \<in> set ks. \<exists>p \<in> set (c_skills_preferred record). ci_equal k p)))"

text \<open>
  A scholarship record passes: a given college name is the word any, in whatever case,
  or occurs in the record's college without regard to case; the same for the major;
  a given academic profile occurs in the criteria; and, where skills are given and not
  empty, one of them occurs in the criteria.
\<close>

definition is_any :: "string \<Rightarrow> bool" where
  "is_any s = ci_equal s ''any''"

definition scholarship_passes ::
  "string option \<Rightarrow> string option \<Rightarrow> string option \<Rightarrow> string list option
     \<Rightarrow> scholarship \<Rightarrow> bool" where
  "scholarship_passes college_name major academic_profile skills record =
     ((case college_name of None \<Rightarrow> True
       | Some n \<Rightarrow> is_any n \<or> ci_substring n (s_college record))
      \<and> (case major of None \<Rightarrow> True
          | Some m \<Rightarrow> is_any m \<or> ci_substring m (s_major record))
      \<and> (case academic_profile of None \<Rightarrow> True
          | Some p \<Rightarrow> ci_substring p (s_criteria record))
      \<and> (case skills of None \<Rightarrow> True
          | Some ks \<Rightarrow> ks = [] \<or> (\<exists>k \<in> set ks. ci_substring k (s_criteria record))))"

section \<open>Basic facts\<close>

lemma startswith_prefix: "startswith xs ys = prefix xs ys"
  by (induction xs ys rule: startswith.induct) simp_all

lemma str_in_sublist: "str_in xs ys = sublist xs ys"
proof (induction ys)
  case Nil
  show ?case by simp
next
  case (Cons y ys)
  show ?case
    by (simp only: str_in.simps startswith_prefix Cons.IH sublist_Cons_right)
qed

lemma lower_Nil: "lower [] = []"
  by (simp add: lower_def)

lemma lower_any: "lower ''any'' = ''any''"
  by code_simp

lemma lower_Any: "lower ''Any'' = ''any''"
  by code_simp

lemma startswith_Cons_right:
  "startswith x (c # cs) \<longleftrightarrow> x = [] \<or> (\<exists>t. x = c # t \<and> startswith t cs)"
  by (cases x) auto

lemma startswith_Nil_right: "startswith x [] \<longleftrightarrow> x = []"
  by (cases x) auto

lemma str_in_any:
  "str_in x ''any'' \<longleftrightarrow> x \<in> {[], ''a'', ''n'', ''y'', ''an'', ''ny'', ''any''}"
  unfolding str_in.simps startswith_Cons_right startswith_Nil_right
  by blast

subsection \<open>The loops are filters\<close>

lemma skill_match_iff:
  "skill_match ks preferred \<longleftrightarrow> (\<exists>k \<in> set ks. \<exists>p \<in> set preferred. ci_equal k p)"
  by (induction ks) (auto simp: ci_equal_def)

lemma college_kept_passes:
  "college_kept major min_rank max_rank location_preference academic_skills c
     = college_passes major min_rank max_rank location_preference academic_skills c"
  unfolding college_kept_def college_passes_def
  by (cases min_rank; cases max_rank; cases location_preference; cases academic_skills)
     (auto simp: ci_equal_def ci_substring_def str_in_sublist skill_match_iff lower_Nil)

lemma college_scan_filter:
  "college_scan major min_rank max_rank location_preference academic_skills table
     = filter (college_passes major min_rank max_rank location_preference academic_skills)
         table"
  by (induction table) (simp_all add: college_kept_passes)

lemma college_scan_Nil:
  "college_scan major min_rank max_rank location_preference academic_skills table = []
     \<longleftrightarrow> \<not> (\<exists>c \<in> set table.
              college_passes major min_rank max_rank location_preference academic_skills c)"
  by (simp add: college_scan_filter filter_empty_conv)

lemma skill_found_iff:
  "skill_found ks criteria \<longleftrightarrow> (\<exists>k \<in> set ks. ci_substring k criteria)"
  by (induction ks) (auto simp: ci_substring_def str_in_sublist)

lemma scholarship_match_passes:
  "scholarship_match college_name major academic_profile skills s
     = scholarship_passes college_name major academic_profile skills s"
  unfolding scholarship_match_def scholarship_passes_def Let_def
  by (cases college_name; cases major; cases academic_profile; cases skills)
     (auto simp: is_any_def ci_equal_def ci_substring_def str_in_sublist skill_found_iff
        lower_Nil lower_any)

lemma scholarship_scan_filter:
  "scholarship_scan college_name major academic_profile skills table
     = filter (scholarship_passes college_name major academic_profile skills) table"
  by (induction table) (simp_all add: scholarship_match_passes)

lemma scholarship_scan_Nil:
  "scholarship_scan college_name major academic_profile skills table = []
     \<longleftrightarrow> \<not> (\<exists>s \<in> set table.
              scholarship_passes college_name major academic_profile skills s)"
  by (simp add: scholarship_scan_filter filter_empty_conv)

subsection \<open>The shape of an encoded list\<close>










subsection \<open>The encoded part of a result\<close>

lemma college_top_sorted:
  "sorted (map c_rank (college_top table major min_rank max_rank location_preference
                         academic_skills))"
  unfolding college_top_def take_map [symmetric]
  by (rule sorted_wrt_take) (rule sorted_sort_key)


lemma college_top_subset:
  "set (college_top table major min_rank max_rank location_preference academic_skills)
     \<subseteq> set table"
proof -
  have "set (college_top table major min_rank max_rank location_preference academic_skills)
          \<subseteq> set (sort_key c_rank (college_scan major min_rank max_rank location_preference
                                     academic_skills table))"
    unfolding college_top_def by (rule set_take_subset)
  then show ?thesis
    by (auto simp: college_scan_filter)
qed

lemma scholarship_top_subset:
  "set (scholarship_top table college_name major academic_profile skills) \<subseteq> set table"
proof -
  have "set (scholarship_top table college_name major academic_profile skills)
          \<subseteq> set (scholarship_scan college_name major academic_profile skills table)"
    unfolding scholarship_top_def by (rule set_take_subset)
  then show ?thesis
    by (auto simp: scholarship_scan_filter)
qed

lemma get_college_data_on_eq:
  "get_college_data_on table major min_rank max_rank location_preference academic_skills
       extra_curriculars
     = (if \<exists>c \<in> set table.
             college_passes major min_rank max_rank location_preference academic_skills c
        then dumps_colleges (college_top table major min_rank max_rank location_preference
                               academic_skills)
        else no_colleges_message)"
  using college_scan_Nil [of major min_rank max_rank location_preference academic_skills table]
  by (simp add: get_college_data_on_def college_top_def Let_def)

lemma search_scholarships_on_eq:
  "search_scholarships_on table college_name major academic_profile skills
     = (if \<exists>s \<in> set table. scholarship_passes college_name major academic_profile skills s
        then dumps_scholarships (scholarship_top table college_name major academic_profile
                                   skills)
        else no_scholarships_message)"
  using scholarship_scan_Nil [of college_name major academic_profile skills table]
  by (simp add: search_scholarships_on_def scholarship_top_def Let_def)

subsection \<open>Binding the arguments of a call\<close>

lemma bind_missing_required:
  assumes "(p, True) \<in> set params" and "map_of kw p = None"
  shows "bind_kwargs params kw = Some TypeError"
  using assms unfolding bind_kwargs_def by auto

subsection \<open>Arguments of the annotated types\<close>

text \<open>On arguments of the annotated types the tools on values of any type are the
  typed functions.\<close>

lemma college_skipped_typed:
  "college_skipped (AStr major) (map_option AInt min_rank) (map_option AInt max_rank)
       (map_option AStr location_preference) (map_option AList academic_skills) c
     = Inr (\<not> college_kept major min_rank max_rank location_preference academic_skills c)"
  unfolding college_skipped_def college_kept_def major_differs_def below_min_def
    above_max_def location_differs_def skills_differ_def
  by (cases min_rank; cases max_rank; cases location_preference; cases academic_skills)
     auto

lemma college_scan_args_typed:
  "college_scan_args (AStr major) (map_option AInt min_rank) (map_option AInt max_rank)
       (map_option AStr location_preference) (map_option AList academic_skills) table
     = Inr (college_scan major min_rank max_rank location_preference academic_skills table)"
  by (induction table) (simp_all add: college_skipped_typed)

lemma get_college_data_args_typed:
  "get_college_data_args (AStr major) (map_option AInt min_rank) (map_option AInt max_rank)
       (map_option AStr location_preference) (map_option AList academic_skills)
       (map_option AList extra_curriculars)
     = Inr (get_college_data major min_rank max_rank location_preference academic_skills
              extra_curriculars)"
  by (simp add: get_college_data_args_def get_college_data_def get_college_data_on_def
      college_scan_args_typed Let_def)

lemma scholarship_match_args_typed:
  "scholarship_match_args (map_option AStr college_name) (map_option AStr major)
       (map_option AStr academic_profile) (map_option AList skills) s
     = Inr (scholarship_match college_name major academic_profile skills s)"
  unfolding scholarship_match_args_def scholarship_match_def name_excludes_def
    profile_excludes_def skills_exclude_def Let_def
  by (cases college_name; cases major; cases academic_profile; cases skills) auto

lemma scholarship_scan_args_typed:
  "scholarship_scan_args (map_option AStr college_name) (map_option AStr major)
       (map_option AStr academic_profile) (map_option AList skills) table
     = Inr (scholarship_scan college_name major academic_profile skills table)"
  by (induction table) (simp_all add: scholarship_match_args_typed)

lemma search_scholarships_args_typed:
  "search_scholarships_args (map_option AStr college_name) (map_option AStr major)
       (map_option AStr academic_profile) (map_option AList skills)
     = Inr (search_scholarships college_name major academic_profile skills)"
  by (simp add: search_scholarships_args_def search_scholarships_def
      search_scholarships_on_def scholarship_scan_args_typed Let_def)

lemma validate_input_args_typed:
  "validate_input_args (AList required_info) (AStr message_to_user)
     = AStr (validate_input required_info message_to_user)"
  by (simp add: validate_input_args_def validate_input_def)

section \<open>The college filter\<close>

text \<open>
  C1. Over any table, and so over the table of the source, a record is among the records
  that \<open>get_college_data\<close> keeps if and only if it is in the table and passes as the
  specification words it: the major equal without regard to case, the rank within the
  given bounds, the given location preference inside the location without regard to
  case, and, for a non-empty list of skills, at least one skill equal to a preferred
  skill without regard to case.
\<close>

theorem college_passing_set:
  "c \<in> set (college_scan major min_rank max_rank location_preference academic_skills table)
     \<longleftrightarrow> c \<in> set table
          \<and> college_passes major min_rank max_rank location_preference academic_skills c"
  by (simp add: college_scan_filter)

theorem college_passing_set_witness:
  "college_passes ''fine arts'' (Some 8) (Some 8) (Some ''LONDON'')
       (Some [''coding'', ''Painting'']) (colleges ! 2)
   \<and> colleges ! 2 \<in> set (college_scan ''fine arts'' (Some 8) (Some 8) (Some ''LONDON'')
                           (Some [''coding'', ''Painting'']) colleges)
   \<and> colleges ! 0 \<in> set (college_scan ''computer science'' None None None
                           (Some [''coding'', ''painting'']) colleges)
   \<and> colleges ! 0 \<notin> set (college_scan ''computer science'' None None None
                           (Some [''painting'', ''drawing'']) colleges)"
proof -
  have p: "college_passes ''fine arts'' (Some 8) (Some 8) (Some ''LONDON'')
             (Some [''coding'', ''Painting'']) (colleges ! 2)"
    by code_simp
  have q: "college_passes ''computer science'' None None None
             (Some [''coding'', ''painting'']) (colleges ! 0)"
    by code_simp
  have n: "\<not> college_passes ''computer science'' None None None
               (Some [''painting'', ''drawing'']) (colleges ! 0)"
    by code_simp
  have m: "colleges ! 2 \<in> set colleges" "colleges ! 0 \<in> set colleges"
    by (simp_all add: colleges_def)
  show ?thesis
    using p q n m
      college_passing_set [of "colleges ! 2" "''fine arts''" "Some 8" "Some 8" "Some ''LONDON''"
        "Some [''coding'', ''Painting'']" colleges]
      college_passing_set [of "colleges ! 0" "''computer science''" None None None
        "Some [''coding'', ''painting'']" colleges]
      college_passing_set [of "colleges ! 0" "''computer science''" None None None
        "Some [''painting'', ''drawing'']" colleges]
    by blast
qed

section \<open>The scholarship filter\<close>

text \<open>
  C2. Over any table, a record is among the records that \<open>search_scholarships\<close> keeps
  if and only if it is in the table and passes as the specification words it, the
  sentinel any being read without regard to case as every other comparison is. When
  some record passes, the result is the encoding of the first three passing records in
  the order of the table.
\<close>

theorem scholarship_passing_set:
  "(s \<in> set (scholarship_scan college_name major academic_profile skills table)
      \<longleftrightarrow> s \<in> set table
           \<and> scholarship_passes college_name major academic_profile skills s)
   \<and> ((\<exists>r \<in> set table. scholarship_passes college_name major academic_profile skills r)
        \<longrightarrow> search_scholarships_on table college_name major academic_profile skills
             = dumps_scholarships
                 (take 3 (filter (scholarship_passes college_name major academic_profile
                                    skills) table)))"
  by (simp add: scholarship_scan_filter search_scholarships_on_eq scholarship_top_def)

theorem scholarship_passing_set_witness:
  "(\<exists>r \<in> set scholarships. scholarship_passes (Some ''ANY'') None (Some ''research'') None r)
   \<and> map s_name (filter (scholarship_passes (Some ''ANY'') None (Some ''research'') None)
                    scholarships)
       = [''AI Research Fellowship'', ''Indian STEM Scholarship'',
          ''Humanities Research Grant'']
   \<and> search_scholarships (Some ''ANY'') None (Some ''research'') None
       = dumps_scholarships [scholarships ! 1, scholarships ! 7, scholarships ! 8]"
proof -
  have f: "filter (scholarship_passes (Some ''ANY'') None (Some ''research'') None)
             scholarships = [scholarships ! 1, scholarships ! 7, scholarships ! 8]"
    by code_simp
  have n: "map s_name [scholarships ! 1, scholarships ! 7, scholarships ! 8]
             = [''AI Research Fellowship'', ''Indian STEM Scholarship'',
                ''Humanities Research Grant'']"
    by code_simp
  have e: "\<exists>r \<in> set scholarships.
             scholarship_passes (Some ''ANY'') None (Some ''research'') None r"
    using f by (metis filter_empty_conv list.distinct(1))
  show ?thesis
    using e f n
      scholarship_passing_set [of "scholarships ! 1" "Some ''ANY''" None "Some ''research''" None
        scholarships]
    by (simp add: search_scholarships_def)
qed

section \<open>Order and size of a college result\<close>

text \<open>
  C3. Over any table, when at least one record passes, the result of
  \<open>get_college_data\<close> is the encoding of a list that is sorted by ascending rank and
  has at most five entries, however many records pass.
\<close>

theorem college_result_sorted_capped:
  assumes "\<exists>c \<in> set table.
             college_passes major min_rank max_rank location_preference academic_skills c"
  shows "get_college_data_on table major min_rank max_rank location_preference
             academic_skills extra_curriculars
           = dumps_colleges (college_top table major min_rank max_rank location_preference
                               academic_skills)
         \<and> sorted (map c_rank (college_top table major min_rank max_rank
                                  location_preference academic_skills))
         \<and> length (college_top table major min_rank max_rank location_preference
                     academic_skills) \<le> 5"
  using assms college_top_sorted [of table major min_rank max_rank location_preference
                                    academic_skills]
  by (simp add: get_college_data_on_eq college_top_def)

theorem college_result_sorted_capped_witness:
  "length (filter (college_passes ''computer science'' None None None None)
             (colleges @ colleges)) = 6
   \<and> map c_rank (college_top (colleges @ colleges) ''computer science'' None None None None)
       = [1, 1, 2, 2, 5]
   \<and> get_college_data_on (colleges @ colleges) ''computer science'' None None None None None
       = dumps_colleges (college_top (colleges @ colleges) ''computer science'' None None
                           None None)
   \<and> sorted (map c_rank (college_top (colleges @ colleges) ''computer science'' None None
                           None None))
   \<and> length (college_top (colleges @ colleges) ''computer science'' None None None None) \<le> 5"
proof -
  have six: "length (filter (college_passes ''computer science'' None None None None)
                       (colleges @ colleges)) = 6"
    by code_simp
  have ex: "\<exists>c \<in> set (colleges @ colleges).
              college_passes ''computer science'' None None None None c"
    using six by (metis filter_empty_conv list.size(3) zero_neq_numeral)
  have ranks: "map c_rank (college_top (colleges @ colleges) ''computer science'' None None
                             None None) = [1, 1, 2, 2, 5]"
    by code_simp
  show ?thesis
    using six ranks college_result_sorted_capped [OF ex, of None]
    by simp
qed

section \<open>No result is a message, some result is an encoded list\<close>



section \<open>A record whose college is Any\<close>

text \<open>
  C5, as the code has it. Only the college name of the query is read as a sentinel. For
  a query whose college name is not empty and not the word any, a record whose college
  is Any is kept by the college test only when the lower-cased name occurs in any,
  that is when it is one of a, n, y, an, ny; the other three tests are unchanged.
\<close>

theorem any_record_college_test:
  assumes "s_college s = ''Any''" and "college_name \<noteq> []"
    and "lower college_name \<noteq> ''any''"
  shows "scholarship_match (Some college_name) major academic_profile skills s
           \<longleftrightarrow> lower college_name \<in> {''a'', ''n'', ''y'', ''an'', ''ny''}
                \<and> scholarship_match None major academic_profile skills s"
proof -
  define inside where "inside = str_in (lower college_name) (lower (s_college s))"
  have ne: "lower college_name \<noteq> []"
    using assms(2) by (simp add: lower_def)
  have "inside \<longleftrightarrow> lower college_name \<in> {[], ''a'', ''n'', ''y'', ''an'', ''ny'', ''any''}"
    unfolding inside_def assms(1) lower_Any by (rule str_in_any)
  then have inside_iff: "inside \<longleftrightarrow> lower college_name \<in> {''a'', ''n'', ''y'', ''an'', ''ny''}"
    using ne assms(3) by blast
  have "scholarship_match (Some college_name) major academic_profile skills s
          \<longleftrightarrow> inside \<and> scholarship_match None major academic_profile skills s"
    using assms(2,3) by (auto simp: scholarship_match_def Let_def inside_def)
  then show ?thesis
    by (simp only: inside_iff)
qed

theorem any_record_college_test_witness:
  "s_college (scholarships ! 5) = ''Any'' \<and> ''An'' \<noteq> [] \<and> lower ''An'' \<noteq> ''any''
   \<and> scholarship_match (Some ''An'') None None None (scholarships ! 5)
   \<and> \<not> scholarship_match (Some ''Tech University'') None None None (scholarships ! 5)"
proof -
  have a: "s_college (scholarships ! 5) = ''Any''" by code_simp
  have b: "''An'' \<noteq> []" by simp
  have c: "lower ''An'' \<noteq> ''any''" by code_simp
  have d: "lower ''An'' \<in> {''a'', ''n'', ''y'', ''an'', ''ny''}" by code_simp
  have e: "scholarship_match None None None None (scholarships ! 5)"
    by (simp add: scholarship_match_def)
  have b': "''Tech University'' \<noteq> []" by simp
  have c': "lower ''Tech University'' \<noteq> ''any''" by code_simp
  have d': "lower ''Tech University'' \<notin> {''a'', ''n'', ''y'', ''an'', ''ny''}" by code_simp
  show ?thesis
    using a b c d e d'
      any_record_college_test [OF a b c, of None None None]
      any_record_college_test [OF a b' c', of None None None]
    by blast
qed

text \<open>
  On the table of the source, the query with college name Tech University does not keep
  the General Excellence Scholarship, whose college is Any: a record-side Any is not a
  wildcard.
\<close>

theorem any_record_excluded:
  "s_name (scholarships ! 5) = ''General Excellence Scholarship''
   \<and> s_college (scholarships ! 5) = ''Any''
   \<and> lower ''Tech University'' \<noteq> ''any''
   \<and> scholarships ! 5 \<notin> set (scholarship_scan (Some ''Tech University'') None None None
                                scholarships)"
  by code_simp

section \<open>Dispatch\<close>

text \<open>
  C6, as the code has it. For every tool name other than the three registered ones, and
  every argument bag that has no key \<open>tool_name\<close>, \<open>call_tool\<close> returns (it does
  not raise) the error string built around the name, and the name occurs in that
  string.
\<close>

theorem unknown_tool_error_string:
  assumes "tool_name \<notin> {''get_college_data'', ''search_scholarships'', ''validate_input''}"
    and "''tool_name'' \<notin> set (map fst kw)"
  shows "call_tool tool_name kw
           = Inr (AStr (''Error: Tool '' @ [CHR 0x27] @ tool_name @ [CHR 0x27]
                          @ '' not found.''))
         \<and> str_in tool_name
             (''Error: Tool '' @ [CHR 0x27] @ tool_name @ [CHR 0x27] @ '' not found.'')"
proof -
  have "sublist tool_name
          ((''Error: Tool '' @ [CHR 0x27]) @ tool_name @ ([CHR 0x27] @ '' not found.''))"
    by (rule sublist_appendI)
  then have "str_in tool_name
               (''Error: Tool '' @ [CHR 0x27] @ tool_name @ [CHR 0x27] @ '' not found.'')"
    by (simp only: str_in_sublist append_assoc)
  then show ?thesis
    using assms by (simp add: call_tool_def)
qed

theorem unknown_tool_error_string_witness:
  "''get_weather'' \<notin> {''get_college_data'', ''search_scholarships'', ''validate_input''}
   \<and> ''tool_name'' \<notin> set (map fst [(''city'', AStr ''Pune'')])
   \<and> call_tool ''get_weather'' [(''city'', AStr ''Pune'')]
       = Inr (AStr (''Error: Tool '' @ [CHR 0x27] @ ''get_weather'' @ [CHR 0x27]
                      @ '' not found.''))"
proof -
  have h: "''get_weather'' \<notin> {''get_college_data'', ''search_scholarships'', ''validate_input''}"
    by simp
  have k: "''tool_name'' \<notin> set (map fst [(''city'', AStr ''Pune'')])"
    by simp
  show ?thesis
    using h k unknown_tool_error_string [OF h k]
    by simp
qed

text \<open>
  With a key \<open>tool_name\<close> in the argument bag the call raises instead, for an
  unregistered name as for any other.
\<close>

theorem unknown_tool_raises:
  "''get_weather'' \<notin> {''get_college_data'', ''search_scholarships'', ''validate_input''}
   \<and> call_tool ''get_weather'' [(''tool_name'', AStr ''get_weather'')] = Inl TypeError"
  by (simp add: call_tool_def)

text \<open>
  C8. A call of \<open>get_college_data\<close> through \<open>call_tool\<close> with an argument bag
  that has no \<open>major\<close> raises: the outcome is the exception, not a result string.
\<close>

theorem missing_major_raises:
  assumes "''major'' \<notin> set (map fst kw)"
  shows "call_tool ''get_college_data'' kw = Inl TypeError"
proof -
  have none: "map_of kw ''major'' = None"
    using assms by (simp add: map_of_eq_None_iff)
  have "(''major'', True) \<in> set get_college_data_params"
    by (simp add: get_college_data_params_def)
  then have "bind_kwargs get_college_data_params kw = Some TypeError"
    using none by (rule bind_missing_required)
  then show ?thesis
    by (simp add: call_tool_def)
qed

theorem missing_major_raises_witness:
  "''major'' \<notin> set (map fst [(''max_rank'', AInt 10)])
   \<and> call_tool ''get_college_data'' [(''max_rank'', AInt 10)] = Inl TypeError"
proof -
  have h: "''major'' \<notin> set (map fst [(''max_rank'', AInt 10)])"
    by simp
  show ?thesis
    using h missing_major_raises [OF h] by simp
qed

section \<open>validate_input returns its message\<close>

text \<open>
  C9. For every pair of arguments, \<open>validate_input\<close> returns \<open>message_to_user\<close>
  unchanged, and the result is the same whatever \<open>required_info\<close> is.
\<close>

theorem validate_input_passthrough:
  "validate_input required_info message_to_user = message_to_user
   \<and> validate_input required_info message_to_user
       = validate_input required_info' message_to_user"
  by (simp add: validate_input_def)

section \<open>Calls made in one turn\<close>

text \<open>
  C7, as the code has it. In a turn whose first response has a true function call as its
  first part, \<open>call_tool\<close> is entered at most once and at most two messages are sent.
  When the arguments of the function call are set and have no key \<open>tool_name\<close>,
  \<open>call_tool\<close> is entered exactly once; the turn then sends two messages, the
  user's and the function result, when the call returns, and only the user's message
  when it raises. When the arguments are unset, or have a key \<open>tool_name\<close>, the
  turn ends before \<open>call_tool\<close> is entered, with the user's message the only one
  sent.
\<close>

theorem tool_turn_counts:
  assumes "first_reply g = Inr r" and "r_parts r = FunctionCall n a # rest"
    and "n \<noteq> [] \<or> a \<noteq> None"
  shows "(case a of
            None \<Rightarrow>
              calls (snd (handle_user_query g q h)) = 0
              \<and> sends (snd (handle_user_query g q h)) = 1
          | Some kw \<Rightarrow>
              if ''tool_name'' \<in> set (map fst kw)
              then calls (snd (handle_user_query g q h)) = 0
                   \<and> sends (snd (handle_user_query g q h)) = 1
              else calls (snd (handle_user_query g q h)) = 1
                   \<and> (case call_tool n kw of
                         Inr tool_output \<Rightarrow> sends (snd (handle_user_query g q h)) = 2
                       | Inl e \<Rightarrow> sends (snd (handle_user_query g q h)) = 1))"
proof (cases a)
  case None
  with assms show ?thesis
    by (simp add: handle_user_query_def Let_def calls_def sends_def)
next
  case (Some kw)
  show ?thesis
  proof (cases "''tool_name'' \<in> set (map fst kw)")
    case True
    then have "call_tool n kw = Inl TypeError"
      by (simp add: call_tool_def)
    with assms Some True show ?thesis
      by (simp add: handle_user_query_def Let_def calls_def sends_def)
  next
    case False
    with assms Some show ?thesis
      by (simp add: handle_user_query_def Let_def calls_def sends_def split: sum.split)
  qed
qed

theorem tool_turn_counts_witness:
  "call_tool ''validate_input''
       [(''required_info'', AList [''major'']), (''message_to_user'', AStr ''Which major?'')]
     = Inr (AStr ''Which major?'')
   \<and> snd (handle_user_query
        \<lparr>first_reply = Inr \<lparr>r_parts = [FunctionCall ''validate_input''
             (Some [(''required_info'', AList [''major'']),
                    (''message_to_user'', AStr ''Which major?'')])], r_text = Inr []\<rparr>,
         followup_reply = Inr ''Which major do you want to study?''\<rparr> ''Suggest colleges'' [])
     = [SendMessage (UserText ''Suggest colleges''),
        CallTool ''validate_input''
          [(''required_info'', AList [''major'']), (''message_to_user'', AStr ''Which major?'')],
        SendMessage (FunctionResponse ''validate_input'' (AStr ''Which major?''))]
   \<and> calls (snd (handle_user_query
        \<lparr>first_reply = Inr \<lparr>r_parts = [FunctionCall ''validate_input''
             (Some [(''required_info'', AList [''major'']),
                    (''message_to_user'', AStr ''Which major?'')])], r_text = Inr []\<rparr>,
         followup_reply = Inr ''Which major do you want to study?''\<rparr> ''Suggest colleges'' []))
       = 1
   \<and> sends (snd (handle_user_query
        \<lparr>first_reply = Inr \<lparr>r_parts = [FunctionCall ''validate_input''
             (Some [(''required_info'', AList [''major'']),
                    (''message_to_user'', AStr ''Which major?'')])], r_text = Inr []\<rparr>,
         followup_reply = Inr ''Which major do you want to study?''\<rparr> ''Suggest colleges'' []))
       = 2"
proof -
  let ?kw = "[(''required_info'', AList [''major'']), (''message_to_user'', AStr ''Which major?'')]"
  let ?r = "\<lparr>r_parts = [FunctionCall ''validate_input'' (Some ?kw)], r_text = Inr []\<rparr>"
  let ?g = "\<lparr>first_reply = Inr ?r, followup_reply = Inr ''Which major do you want to study?''\<rparr>"
  have out: "call_tool ''validate_input'' ?kw = Inr (AStr ''Which major?'')"
    by (simp add: call_tool_def bind_kwargs_def validate_input_params_def
        validate_input_args_def)
  have a: "first_reply ?g = Inr ?r" by simp
  have b: "r_parts ?r = FunctionCall ''validate_input'' (Some ?kw) # []" by simp
  have c: "''validate_input'' \<noteq> [] \<or> Some ?kw \<noteq> None" by simp
  have tr: "snd (handle_user_query ?g ''Suggest colleges'' [])
              = [SendMessage (UserText ''Suggest colleges''),
                 CallTool ''validate_input'' ?kw,
                 SendMessage (FunctionResponse ''validate_input'' (AStr ''Which major?''))]"
    by (simp add: handle_user_query_def Let_def out)
  show ?thesis
    using out tr tool_turn_counts [OF a b c, of "''Suggest colleges''" "[]"]
    by simp
qed

text \<open>
  A first response that asks for \<open>get_college_data\<close> with a maximal rank and no
  major makes \<open>call_tool\<close> raise, and the turn ends after one message sent, not
  two. A first response that asks for \<open>validate_input\<close> with its arguments unset
  ends the turn before \<open>call_tool\<close> is entered.
\<close>

theorem tool_turn_single_send:
  "requests_tool \<lparr>r_parts = [FunctionCall ''get_college_data''
                               (Some [(''max_rank'', AInt 10)])], r_text = Inr []\<rparr>
   \<and> calls (snd (handle_user_query
        \<lparr>first_reply = Inr \<lparr>r_parts = [FunctionCall ''get_college_data''
                                         (Some [(''max_rank'', AInt 10)])],
                              r_text = Inr []\<rparr>,
         followup_reply = Inr ''Here are some colleges.''\<rparr> ''Suggest colleges'' [])) = 1
   \<and> sends (snd (handle_user_query
        \<lparr>first_reply = Inr \<lparr>r_parts = [FunctionCall ''get_college_data''
                                         (Some [(''max_rank'', AInt 10)])],
                              r_text = Inr []\<rparr>,
         followup_reply = Inr ''Here are some colleges.''\<rparr> ''Suggest colleges'' [])) = 1
   \<and> sends (snd (handle_user_query
        \<lparr>first_reply = Inr \<lparr>r_parts = [FunctionCall ''get_college_data''
                                         (Some [(''max_rank'', AInt 10)])],
                              r_text = Inr []\<rparr>,
         followup_reply = Inr ''Here are some colleges.''\<rparr> ''Suggest colleges'' [])) \<noteq> 2
   \<and> requests_tool \<lparr>r_parts = [FunctionCall ''validate_input'' None], r_text = Inr []\<rparr>
   \<and> calls (snd (handle_user_query
        \<lparr>first_reply = Inr \<lparr>r_parts = [FunctionCall ''validate_input'' None],
                              r_text = Inr []\<rparr>,
         followup_reply = Inr ''Which major?''\<rparr> ''Suggest colleges'' [])) = 0
   \<and> calls (snd (handle_user_query
        \<lparr>first_reply = Inr \<lparr>r_parts = [FunctionCall ''validate_input'' None],
                              r_text = Inr []\<rparr>,
         followup_reply = Inr ''Which major?''\<rparr> ''Suggest colleges'' [])) \<noteq> 1"
  by (simp add: handle_user_query_def Let_def calls_def sends_def call_tool_def
      bind_kwargs_def get_college_data_params_def)

section \<open>Results come from the catalog\<close>

text \<open>
  C10. For every query, the list that \<open>get_college_data\<close> encodes holds only records
  of the table of ten colleges, and the list that \<open>search_scholarships\<close> encodes holds
  only records of the table of nine scholarships.
\<close>

theorem results_from_catalog:
  "((\<exists>c \<in> set colleges.
        college_passes major min_rank max_rank location_preference academic_skills c)
      \<longrightarrow> get_college_data major min_rank max_rank location_preference academic_skills
             extra_curriculars
           = dumps_colleges (college_top colleges major min_rank max_rank
                               location_preference academic_skills))
   \<and> set (college_top colleges major min_rank max_rank location_preference academic_skills)
       \<subseteq> set colleges
   \<and> length colleges = 10
   \<and> ((\<exists>s \<in> set scholarships.
          scholarship_passes college_name smajor academic_profile skills s)
        \<longrightarrow> search_scholarships college_name smajor academic_profile skills
             = dumps_scholarships (scholarship_top scholarships college_name smajor
                                     academic_profile skills))
   \<and> set (scholarship_top scholarships college_name smajor academic_profile skills)
       \<subseteq> set scholarships
   \<and> length scholarships = 9"
proof -
  have "length colleges = 10"
    by (simp add: colleges_def)
  moreover have "length scholarships = 9"
    by (simp add: scholarships_def)
  ultimately show ?thesis
    by (simp add: get_college_data_def search_scholarships_def get_college_data_on_eq
        search_scholarships_on_eq college_top_subset scholarship_top_subset)
qed

theorem results_from_catalog_witness:
  "(\<exists>c \<in> set colleges. college_passes ''Computer Science'' None (Some 5) None None c)
   \<and> get_college_data ''Computer Science'' None (Some 5) None None None
       = dumps_colleges [colleges ! 8, colleges ! 6, colleges ! 0]
   \<and> (\<exists>s \<in> set scholarships. scholarship_passes None (Some ''history'') None None s)
   \<and> search_scholarships None (Some ''history'') None None
       = dumps_scholarships [scholarships ! 8]"
proof -
  have a: "\<exists>c \<in> set colleges. college_passes ''Computer Science'' None (Some 5) None None c"
    by code_simp
  have b: "\<exists>s \<in> set scholarships. scholarship_passes None (Some ''history'') None None s"
    by code_simp
  have c: "college_top colleges ''Computer Science'' None (Some 5) None None
             = [colleges ! 8, colleges ! 6, colleges ! 0]"
    by code_simp
  have d: "scholarship_top scholarships None (Some ''history'') None None
             = [scholarships ! 8]"
    by code_simp
  show ?thesis
    using a b c d
      results_from_catalog [of "''Computer Science''" None "Some 5" None None None None
        "Some ''history''" None None]
    by simp
qed

end
